theory Spec2Isabelle
  imports Main "HOL-Library.Sublist"
begin

section \<open>Strings and numbers of the host language\<close>

text \<open>
  JavaScript strings are modelled as \<open>string\<close>: lists of code units below 256, the
  characters of Latin-1. \<open>Date.now()\<close> is a natural number of milliseconds handed in by
  the caller.
\<close>

text \<open>
  \<open>String.prototype.toLowerCase\<close> on code units below 256: the capital letters A to Z
  (65 to 90) and the capital letters of Latin-1 (192 to 222 without the multiplication sign
  215) move up by 32; no other code unit below 256 has a different lower-case form.
\<close>

definition toLowerChar :: "char \<Rightarrow> char" where
  "toLowerChar c =
     (let n = (of_char c :: nat) in
      if (65 \<le> n \<and> n \<le> 90) \<or> (192 \<le> n \<and> n \<le> 214) \<or> (216 \<le> n \<and> n \<le> 222)
      then char_of (n + 32) else c)"

definition toLowerCase :: "string \<Rightarrow> string" where
  "toLowerCase s = map toLowerChar s"

text \<open>\<open>s.includes(q)\<close>: \<open>q\<close> occurs in \<open>s\<close> as a contiguous run of characters.\<close>

definition includes_str :: "string \<Rightarrow> string \<Rightarrow> bool" where
  "includes_str s q = sublist q s"

text \<open>The decimal form of a non-negative integer, as \<open>`${n}`\<close> and \<open>n.toString()\<close> give it.\<close>

definition digit_char :: "nat \<Rightarrow> char" where
  "digit_char d = char_of (48 + d)"

function string_of_nat :: "nat \<Rightarrow> string" where
  "string_of_nat n =
     (if n < 10 then [digit_char n] else string_of_nat (n div 10) @ [digit_char (n mod 10)])"
  by pat_completeness auto
termination
  by (relation "measure id") auto

declare string_of_nat.simps [simp del]

section \<open>The workspace component (MultiProjectLayout)\<close>

subsection \<open>Data\<close>

text \<open>
  A project as the renderer holds it; user projects carry \<open>isUserProject\<close> and the
  registry's primary key \<open>databaseId\<close>. Field names carry a suffix where several
  records have a field of the same name.
\<close>

record Project =
  id_p :: string
  name_p :: "string option"
  path_p :: string
  sessions_p :: "string list"
  created_at_p :: nat
  isUserProject :: bool
  databaseId :: "nat option"

text \<open>
  A session object. \<open>ref\<close> is the identity of the JavaScript object (its address): the
  objects of this component are never mutated, so an object is its identity together with
  its fields, and every object literal takes a fresh identity from the state's counter.
  The optional flags \<open>isTemporary\<close> and \<open>isNewlyCreated\<close> are only ever tested for
  truthiness, so an absent flag is \<open>False\<close>.
\<close>

record Session =
  ref :: nat
  id_s :: string
  project_id :: string
  project_path :: string
  created_at :: nat
  isTemporary :: bool
  isNewlyCreated :: bool
  first_message :: "string option"

record UIState =
  leftPanelCollapsed :: bool
  rightPanelCollapsed :: bool
  leftPanelWidth :: int
  rightPanelWidth :: int
  claudeProjectsCollapsed :: bool

definition DEFAULT_UI_STATE :: UIState where
  "DEFAULT_UI_STATE =
     \<lparr>leftPanelCollapsed = False, rightPanelCollapsed = False,
      leftPanelWidth = 300, rightPanelWidth = 300, claudeProjectsCollapsed = True\<rparr>"

text \<open>The calls the component makes on the \<open>api\<close> object, in the order it makes them.\<close>

datatype ApiCall =
    GetSettings "string list"
  | SetSetting string string
  | ListProjects
  | GetUserProjects
  | GetProjectSessions string

text \<open>
  The component's state cells, followed by what stands outside the component:
  \<open>settingsStore\<close> is the key/value store behind \<open>api.getSettings\<close> and
  \<open>api.setSetting\<close>, \<open>apiCalls\<close> the log of calls made so far, \<open>nextRef\<close> the next
  unused object identity.
\<close>

record State =
  uiState :: UIState
  searchQuery :: string
  projects :: "Project list"
  userProjects :: "Project list"
  claudeProjects :: "Project list"
  sessions :: "Session list"
  loading :: bool
  currentProject :: "Project option"
  currentSession :: "Session option"
  settingsStore :: "string \<rightharpoonup> string"
  apiCalls :: "ApiCall list"
  nextRef :: nat

definition initialState :: "(string \<rightharpoonup> string) \<Rightarrow> State" where
  "initialState store =
     \<lparr>uiState = DEFAULT_UI_STATE, searchQuery = [], projects = [], userProjects = [],
      claudeProjects = [], sessions = [], loading = True, currentProject = None,
      currentSession = None, settingsStore = store, apiCalls = [], nextRef = 0\<rparr>"

definition called :: "ApiCall \<Rightarrow> State \<Rightarrow> State" where
  "called c st = st\<lparr>apiCalls := apiCalls st @ [c]\<rparr>"

subsection \<open>Loading and merging the project lists\<close>

text \<open>
  \<open>loadProjects\<close>: \<open>api.listProjects()\<close> is awaited first, then
  \<open>api.getUserProjects()\<close>; each answer is \<open>None\<close> when the call rejects. A rejection
  jumps to the \<open>catch\<close>, which only logs; \<open>finally\<close> clears \<open>loading\<close>.
\<close>

definition loadProjects :: "Project list option \<Rightarrow> Project list option \<Rightarrow> State \<Rightarrow> State" where
  "loadProjects claudeAnswer userAnswer st =
     (let st1 = called ListProjects (st\<lparr>loading := True\<rparr>) in
      case claudeAnswer of
        None \<Rightarrow> st1\<lparr>loading := False\<rparr>
      | Some claudeProjects' \<Rightarrow>
          (let st2 = called GetUserProjects st1 in
           case userAnswer of
             None \<Rightarrow> st2\<lparr>loading := False\<rparr>
           | Some userProjectsData \<Rightarrow>
               (let userProjects' = userProjectsData;
                    allProjects = userProjects' @ claudeProjects'
                in st2\<lparr>projects := allProjects, userProjects := userProjects',
                       claudeProjects := claudeProjects', loading := False\<rparr>)))"

subsection \<open>The text filter\<close>

definition matchesQuery :: "string \<Rightarrow> Project \<Rightarrow> bool" where
  "matchesQuery q project =
     (includes_str (toLowerCase (path_p project)) (toLowerCase q) \<or>
      includes_str (toLowerCase (id_p project)) (toLowerCase q))"

definition filterProjects :: "Project list \<Rightarrow> string \<Rightarrow> Project list" where
  "filterProjects L q = filter (matchesQuery q) L"

definition filteredUserProjects :: "State \<Rightarrow> Project list" where
  "filteredUserProjects st = filterProjects (userProjects st) (searchQuery st)"

definition filteredClaudeProjects :: "State \<Rightarrow> Project list" where
  "filteredClaudeProjects st = filterProjects (claudeProjects st) (searchQuery st)"

text \<open>\<open>onChange\<close> of the search box.\<close>

definition setSearchQuery :: "string \<Rightarrow> State \<Rightarrow> State" where
  "setSearchQuery q st = st\<lparr>searchQuery := q\<rparr>"

subsection \<open>Sessions of the selected project\<close>

text \<open>
  Modelled from the spec: \<open>api.setSetting\<close> is not among the sources. It writes one key of
  the layout state store (``incremental write''); \<open>ok\<close> tells whether the call resolves.
  Every call site wraps it in \<open>try\<close>/\<open>catch\<close> and only logs a rejection, so a rejected call
  leaves the store as it was.
\<close>

definition api_setSetting :: "bool \<Rightarrow> string \<Rightarrow> string \<Rightarrow> State \<Rightarrow> State" where
  "api_setSetting ok k v st =
     (let st1 = called (SetSetting k v) st in
      if ok then st1\<lparr>settingsStore := (settingsStore st1)(k \<mapsto> v)\<rparr> else st1)"

text \<open>
  \<open>loadSessions\<close>: the answer of \<open>api.getProjectSessions\<close> is \<open>None\<close> when it rejects.
  The objects of an answer are new objects, so they take the next identities in turn.
\<close>

definition received :: "nat \<Rightarrow> Session list \<Rightarrow> Session list" where
  "received n ss = map (\<lambda>(i, s). s\<lparr>ref := i\<rparr>) (enumerate n ss)"

definition loadSessions :: "Session list option \<Rightarrow> Project \<Rightarrow> State \<Rightarrow> State" where
  "loadSessions answer project st =
     (let st1 = called (GetProjectSessions (id_p project)) st in
      case answer of
        Some projectSessions \<Rightarrow>
          st1\<lparr>sessions := received (nextRef st1) projectSessions,
              nextRef := nextRef st1 + length projectSessions\<rparr>
      | None \<Rightarrow> st1\<lparr>sessions := []\<rparr>)"

definition handleProjectSelect ::
  "Session list option \<Rightarrow> bool \<Rightarrow> Project \<Rightarrow> State \<Rightarrow> State" where
  "handleProjectSelect answer ok project st =
     api_setSetting ok ''ui.currentProject.id'' (id_p project)
       (loadSessions answer project
          (st\<lparr>currentProject := Some project, currentSession := None\<rparr>))"

definition handleSessionSelect :: "bool \<Rightarrow> Session \<Rightarrow> State \<Rightarrow> State" where
  "handleSessionSelect ok session st =
     api_setSetting ok ''ui.currentSession.id'' (id_s session)
       (st\<lparr>currentSession := Some session\<rparr>)"

text \<open>
  \<open>handleCreateNewSession\<close>: \<open>Date.now()\<close> is read twice, \<open>t1\<close> for the identifier and
  \<open>t2\<close> for \<open>created_at\<close>.
\<close>

definition tempSessionId :: "nat \<Rightarrow> string" where
  "tempSessionId t1 = ''new-session-'' @ string_of_nat t1"

definition handleCreateNewSession :: "nat \<Rightarrow> nat \<Rightarrow> State \<Rightarrow> State" where
  "handleCreateNewSession t1 t2 st =
     (case currentProject st of
        None \<Rightarrow> st
      | Some p \<Rightarrow>
          (let tempSession =
                 \<lparr>ref = nextRef st, id_s = tempSessionId t1, project_id = id_p p,
                  project_path = path_p p, created_at = t2 div 1000, isTemporary = True,
                  isNewlyCreated = False, first_message = None\<rparr>
           in st\<lparr>currentSession := Some tempSession, nextRef := Suc (nextRef st)\<rparr>))"

text \<open>
  The main area renders the conversation view only when a project and a session are
  selected; \<open>sessionKey\<close> is its React \<open>key\<close>, \<open>sessionProp\<close> its \<open>session\<close> prop.
\<close>

definition sessionKey :: "State \<Rightarrow> string option" where
  "sessionKey st =
     (case currentProject st of
        None \<Rightarrow> None
      | Some p \<Rightarrow>
          (case currentSession st of
             None \<Rightarrow> None
           | Some cs \<Rightarrow> Some (if isTemporary cs then ''temp-'' @ id_p p else id_s cs)))"

definition sessionProp :: "State \<Rightarrow> Session option" where
  "sessionProp st =
     (case currentSession st of
        None \<Rightarrow> None
      | Some cs \<Rightarrow> if isTemporary cs then None else Some cs)"

text \<open>
  \<open>onSessionCreated\<close>, the callback handed to the conversation view (it exists only while
  a project and a session are selected); \<open>t\<close> is \<open>Date.now()\<close>. The object literal
  \<open>newSession\<close> and the spread copy of the selected session are two new objects.
\<close>

definition onSessionCreated :: "string \<Rightarrow> nat \<Rightarrow> State \<Rightarrow> State" where
  "onSessionCreated newSessionId t st =
     (case currentProject st of
        None \<Rightarrow> st
      | Some p \<Rightarrow>
          (case currentSession st of
             None \<Rightarrow> st
           | Some cs \<Rightarrow>
               if isTemporary cs then
                 (let newSession =
                        \<lparr>ref = nextRef st, id_s = newSessionId, project_id = id_p p,
                         project_path = path_p p, created_at = t div 1000,
                         isTemporary = False, isNewlyCreated = True, first_message = None\<rparr>
                  in st\<lparr>sessions :=
                            newSession # filter (\<lambda>s. id_s s \<noteq> newSessionId) (sessions st),
                          currentSession :=
                            Some (cs\<lparr>ref := Suc (nextRef st), id_s := newSessionId,
                                     isNewlyCreated := True\<rparr>),
                          nextRef := Suc (Suc (nextRef st))\<rparr>)
               else st))"

text \<open>The list the session panel shows while a project is selected.\<close>

definition allSessions :: "State \<Rightarrow> Session list" where
  "allSessions st =
     (case currentSession st of
        None \<Rightarrow> sessions st
      | Some cs \<Rightarrow>
          if isTemporary cs \<and> \<not> list_ex (\<lambda>s. id_s s = id_s cs) (sessions st)
          then cs # sessions st
          else sessions st)"

text \<open>
  The format of a real session identifier, which the comment at \<open>tempSessionId\<close> names
  (``a clearly non-UUID format''): 36 characters, hyphens at positions 8, 13, 18 and 23,
  hexadecimal digits elsewhere.
\<close>

definition isHexDigit :: "char \<Rightarrow> bool" where
  "isHexDigit c = (c \<in> set ''0123456789abcdefABCDEF'')"

definition isUUIDFormat :: "string \<Rightarrow> bool" where
  "isUUIDFormat s =
     (length s = 36 \<and>
      list_all (\<lambda>(i, c). if i \<in> {8, 13, 18, 23} then c = CHR ''-'' else isHexDigit c)
        (zip [0..<36] s))"

text \<open>No entry of a session list is a placeholder.\<close>

definition sessionsConfirmed :: "Session list \<Rightarrow> bool" where
  "sessionsConfirmed ss = list_all (\<lambda>s. \<not> isTemporary s) ss"

text \<open>Every object the state holds was allocated before \<open>nextRef\<close>.\<close>

definition refsAllocated :: "State \<Rightarrow> bool" where
  "refsAllocated st =
     (list_all (\<lambda>s. ref s < nextRef st) (sessions st) \<and>
      (case currentSession st of None \<Rightarrow> True | Some cs \<Rightarrow> ref cs < nextRef st))"

subsection \<open>Restoring the panel layout\<close>

text \<open>
  \<open>parseInt(s)\<close> with no radix: leading white space is skipped, a sign is read, a
  \<open>0x\<close>/\<open>0X\<close> prefix selects radix 16, and the longest run of digits is the value;
  \<open>None\<close> is \<open>NaN\<close>. The result is an exact integer (the rounding of a value beyond
  $2^{53}$ to a double is left out).
\<close>

definition isWhiteSpace :: "char \<Rightarrow> bool" where
  "isWhiteSpace c = ((of_char c :: nat) \<in> {9, 10, 11, 12, 13, 32, 160})"

definition digitValue :: "char \<Rightarrow> nat option" where
  "digitValue c =
     (let n = (of_char c :: nat) in
      if 48 \<le> n \<and> n \<le> 57 then Some (n - 48)
      else if 97 \<le> n \<and> n \<le> 122 then Some (n - 87)
      else if 65 \<le> n \<and> n \<le> 90 then Some (n - 55)
      else None)"

definition isRadixDigit :: "nat \<Rightarrow> char \<Rightarrow> bool" where
  "isRadixDigit R c = (case digitValue c of None \<Rightarrow> False | Some d \<Rightarrow> d < R)"

definition digitsValue :: "nat \<Rightarrow> string \<Rightarrow> nat" where
  "digitsValue R Z = foldl (\<lambda>acc c. acc * R + the (digitValue c)) 0 Z"

definition parseInt :: "string \<Rightarrow> int option" where
  "parseInt inputString =
     (let S = dropWhile isWhiteSpace inputString;
          sign = (if S \<noteq> [] \<and> hd S = CHR ''-'' then - 1 else (1 :: int));
          S1 = (if S \<noteq> [] \<and> (hd S = CHR ''+'' \<or> hd S = CHR ''-'') then tl S else S);
          hex = (2 \<le> length S1 \<and> (take 2 S1 = ''0x'' \<or> take 2 S1 = ''0X''));
          R = (if hex then 16 else 10);
          S2 = (if hex then drop 2 S1 else S1);
          Z = takeWhile (isRadixDigit R) S2
      in if Z = [] then None else Some (sign * int (digitsValue R Z)))"

text \<open>\<open>settings[k]\<close> handed to \<open>parseInt\<close>: an absent key is \<open>undefined\<close>, which
  \<open>parseInt\<close> turns into the string \<open>undefined\<close>.\<close>

definition toStringArg :: "string option \<Rightarrow> string" where
  "toStringArg v = (case v of None \<Rightarrow> ''undefined'' | Some s \<Rightarrow> s)"

text \<open>\<open>parseInt(v) || d\<close>: \<open>NaN\<close> and \<open>0\<close> are falsy.\<close>

definition parseIntOr :: "string option \<Rightarrow> int \<Rightarrow> int" where
  "parseIntOr v d =
     (case parseInt (toStringArg v) of
        None \<Rightarrow> d
      | Some n \<Rightarrow> if n = 0 then d else n)"

text \<open>A string of decimal digits.\<close>

definition isDigits :: "string \<Rightarrow> bool" where
  "isDigits s = (\<forall>c\<in>set s. \<exists>d<10. c = digit_char d)"

definition uiSettingsKeys :: "string list" where
  "uiSettingsKeys =
     [''ui.leftPanel.collapsed'', ''ui.rightPanel.collapsed'', ''ui.leftPanel.width'',
      ''ui.rightPanel.width'', ''ui.claudeProjects.collapsed'', ''ui.currentProject.id'',
      ''ui.currentSession.id'']"

text \<open>
  Modelled from the spec: \<open>api.getSettings\<close> is not among the sources. It is one batched
  read that answers with the stored strings of the keys asked for.
\<close>

definition api_getSettings :: "string list \<Rightarrow> State \<Rightarrow> (string \<rightharpoonup> string)" where
  "api_getSettings keys st = settingsStore st |` set keys"

text \<open>\<open>loadUIState\<close>; \<open>ok\<close> tells whether \<open>api.getSettings\<close> resolves. The restored
  project and session identifiers are read and not used.\<close>

definition loadUIState :: "bool \<Rightarrow> State \<Rightarrow> State" where
  "loadUIState ok st =
     (let st1 = called (GetSettings uiSettingsKeys) st in
      if \<not> ok then st1
      else
        (let settings = api_getSettings uiSettingsKeys st1;
             newUIState =
               \<lparr>leftPanelCollapsed = (settings ''ui.leftPanel.collapsed'' = Some ''true''),
                rightPanelCollapsed = (settings ''ui.rightPanel.collapsed'' = Some ''true''),
                leftPanelWidth =
                  parseIntOr (settings ''ui.leftPanel.width'') (leftPanelWidth DEFAULT_UI_STATE),
                rightPanelWidth =
                  parseIntOr (settings ''ui.rightPanel.width'') (rightPanelWidth DEFAULT_UI_STATE),
                claudeProjectsCollapsed =
                  (settings ''ui.claudeProjects.collapsed'' \<noteq> Some ''false'')\<rparr>
         in st1\<lparr>uiState := newUIState\<rparr>))"

section \<open>The user project registry (main process)\<close>

subsection \<open>The table and its service\<close>

record UserProject =
  id_u :: nat
  name_u :: string
  path_u :: string
  description_u :: "string option"
  is_active :: bool
  created_at_u :: nat
  updated_at_u :: nat

record UserProjectCreateData =
  name_d :: string
  path_d :: string
  description_d :: "string option"
  is_active_d :: "bool option"

text \<open>A thrown \<open>Error\<close> with its message.\<close>

datatype error = Error string

text \<open>
  The \<open>user_projects\<close> table behind the repository object: its rows in insertion order
  and the next value of the generated primary key. The time \<open>now\<close> (milliseconds) that
  the database stamps on a row is handed in by the caller.
\<close>

record Repository =
  rows :: "UserProject list"
  next_id :: nat

text \<open>
  \<open>repository.save\<close> of a new entity inserts a row under a fresh primary key. Of a loaded
  entity it rewrites the row with that key and stamps the time of the update; when the
  entity is equal to its row, nothing is written.
\<close>

definition save_new :: "UserProjectCreateData \<Rightarrow> bool \<Rightarrow> nat \<Rightarrow> Repository \<Rightarrow> UserProject \<times> Repository" where
  "save_new d active now repo =
     (let u = \<lparr>id_u = next_id repo, name_u = name_d d, path_u = path_d d,
               description_u = description_d d, is_active = active,
               created_at_u = now, updated_at_u = now\<rparr>
      in (u, repo\<lparr>rows := rows repo @ [u], next_id := Suc (next_id repo)\<rparr>))"

definition save_loaded :: "UserProject \<Rightarrow> nat \<Rightarrow> Repository \<Rightarrow> Repository" where
  "save_loaded u now repo =
     repo\<lparr>rows :=
            map (\<lambda>r. if id_u r = id_u u
                     then (if r = u then r else u\<lparr>updated_at_u := now\<rparr>)
                     else r)
              (rows repo)\<rparr>"

definition createUserProject ::
  "UserProjectCreateData \<Rightarrow> nat \<Rightarrow> Repository \<Rightarrow> UserProject \<times> Repository" where
  "createUserProject d now repo =
     save_new d (case is_active_d d of None \<Rightarrow> True | Some b \<Rightarrow> b) now repo"

text \<open>Active rows, newest first; rows created at the same time keep their insertion
  order.\<close>

definition getAllUserProjects :: "Repository \<Rightarrow> UserProject list" where
  "getAllUserProjects repo =
     sort_key (\<lambda>u. - int (created_at_u u)) (filter is_active (rows repo))"

definition getUserProjectById :: "nat \<Rightarrow> Repository \<Rightarrow> UserProject option" where
  "getUserProjectById i repo = find (\<lambda>u. id_u u = i) (rows repo)"

definition getUserProjectByPath :: "string \<Rightarrow> Repository \<Rightarrow> UserProject option" where
  "getUserProjectByPath p repo = find (\<lambda>u. path_u u = p) (rows repo)"

definition deleteUserProject :: "nat \<Rightarrow> nat \<Rightarrow> Repository \<Rightarrow> (error + unit) \<times> Repository" where
  "deleteUserProject i now repo =
     (case find (\<lambda>u. id_u u = i) (rows repo) of
        None \<Rightarrow>
          (Inl (Error (''User project with ID '' @ string_of_nat i @ '' not found'')), repo)
      | Some userProject \<Rightarrow>
          (Inr (), save_loaded (userProject\<lparr>is_active := False\<rparr>) now repo))"

definition projectPathExists :: "string \<Rightarrow> Repository \<Rightarrow> bool" where
  "projectPathExists p repo =
     (0 < length (filter (\<lambda>u. path_u u = p \<and> is_active u) (rows repo)))"

text \<open>The primary keys of a table are distinct and below the next generated key.\<close>

definition wellFormedTable :: "Repository \<Rightarrow> bool" where
  "wellFormedTable repo =
     (distinct (map id_u (rows repo)) \<and> list_all (\<lambda>u. id_u u < next_id repo) (rows repo))"

subsection \<open>The IPC handlers\<close>

text \<open>What the file system holds at a path: nothing (\<open>fs.access\<close> rejects), a directory,
  or something that is not a directory.\<close>

datatype FsNode = Directory | NotDirectory

definition accessAndStat :: "(string \<rightharpoonup> FsNode) \<Rightarrow> string \<Rightarrow> error + unit" where
  "accessAndStat fs p =
     (case fs p of
        None \<Rightarrow> Inl (Error ''ENOENT'')
      | Some node \<Rightarrow>
          if node \<noteq> Directory then Inl (Error ''Path is not a directory'') else Inr ())"

text \<open>\<open>projectPath.split(/[/\\]/).pop()\<close>: what follows the last slash or backslash.\<close>

definition isSeparator :: "char \<Rightarrow> bool" where
  "isSeparator c = (c = CHR ''/'' \<or> c = CHR 0x5C)"

definition lastSegment :: "string \<Rightarrow> string" where
  "lastSegment p = rev (takeWhile (\<lambda>c. \<not> isSeparator c) (rev p))"

text \<open>\<open>a || b\<close> on strings: the empty string and \<open>undefined\<close> are falsy.\<close>

definition projectNameOf :: "string option \<Rightarrow> string \<Rightarrow> string" where
  "projectNameOf projectName projectPath =
     (case projectName of
        Some n \<Rightarrow>
          if n \<noteq> [] then n
          else if lastSegment projectPath \<noteq> [] then lastSegment projectPath
          else ''Unnamed Project''
      | None \<Rightarrow>
          if lastSegment projectPath \<noteq> [] then lastSegment projectPath
          else ''Unnamed Project'')"

text \<open>
  The object the handlers answer with. \<open>encodeProjectPath\<close> is imported from a module that
  is not among the sources, so it is the parameter \<open>enc\<close>.
\<close>

definition toProject :: "(string \<Rightarrow> string) \<Rightarrow> UserProject \<Rightarrow> Project" where
  "toProject enc project =
     \<lparr>id_p = enc (path_u project), name_p = Some (name_u project), path_p = path_u project,
      sessions_p = [], created_at_p = created_at_u project div 1000, isUserProject = True,
      databaseId = Some (id_u project)\<rparr>"

definition get_user_projects :: "(string \<Rightarrow> string) \<Rightarrow> Repository \<Rightarrow> Project list" where
  "get_user_projects enc repo = map (toProject enc) (getAllUserProjects repo)"

text \<open>
  The handler \<open>add-user-project\<close>. The inner \<open>try\<close> turns every failure of the access
  check, its own ``not a directory'' included, into one error. The result pairs the
  answer (an error when the handler throws) with the table afterwards.
\<close>

definition add_user_project ::
  "(string \<Rightarrow> string) \<Rightarrow> (string \<rightharpoonup> FsNode) \<Rightarrow> nat \<Rightarrow> string \<Rightarrow> string option \<Rightarrow> Repository
     \<Rightarrow> (error + Project) \<times> Repository" where
  "add_user_project enc fs now projectPath projectName repo =
     (case getUserProjectByPath projectPath repo of
        Some existingProject \<Rightarrow> (Inl (Error ''Project already exists in the list''), repo)
      | None \<Rightarrow>
          (let name = projectNameOf projectName projectPath in
           case accessAndStat fs projectPath of
             Inl e \<Rightarrow> (Inl (Error ''Cannot access the directory''), repo)
           | Inr _ \<Rightarrow>
               (let projectData =
                      \<lparr>name_d = name, path_d = projectPath,
                       description_d = Some (''User project: '' @ name), is_active_d = None\<rparr>;
                    (project, repo') = createUserProject projectData now repo
                in (Inr (toProject enc project), repo'))))"

definition remove_user_project :: "nat \<Rightarrow> nat \<Rightarrow> Repository \<Rightarrow> (error + unit) \<times> Repository" where
  "remove_user_project projectId now repo = deleteUserProject projectId now repo"

section \<open>A scenario\<close>

text \<open>
  The project \<open>/a\<close> with identifier \<open>P1\<close> is selected, the engine answers with two
  sessions of its history, and a new session is started at time 5000.
\<close>

definition scenarioProject :: Project where
  "scenarioProject =
     \<lparr>id_p = ''P1'', name_p = Some ''a'', path_p = ''/a'', sessions_p = [], created_at_p = 1,
      isUserProject = True, databaseId = Some 1\<rparr>"

definition scenarioHistory :: "Session list" where
  "scenarioHistory =
     [\<lparr>ref = 0, id_s = ''R1'', project_id = ''P1'', project_path = ''/a'', created_at = 2,
       isTemporary = False, isNewlyCreated = False, first_message = Some ''hello''\<rparr>,
      \<lparr>ref = 0, id_s = ''S2'', project_id = ''P1'', project_path = ''/a'', created_at = 3,
       isTemporary = False, isNewlyCreated = False, first_message = None\<rparr>]"

definition scenarioSelected :: State where
  "scenarioSelected =
     handleProjectSelect (Some scenarioHistory) True scenarioProject (initialState Map.empty)"

definition scenarioPlaceholder :: State where
  "scenarioPlaceholder = handleCreateNewSession 5000 5000 scenarioSelected"


text \<open>A project that discovery lists, and one whose path ends in a capital letter of
  Latin-1 (\<open>/caf\<close> followed by code unit 201).\<close>

definition scenarioDiscovered :: Project where
  "scenarioDiscovered =
     \<lparr>id_p = ''P2'', name_p = None, path_p = ''/a-other'', sessions_p = [], created_at_p = 1,
      isUserProject = False, databaseId = None\<rparr>"

definition scenarioAccented :: Project where
  "scenarioAccented =
     \<lparr>id_p = ''P3'', name_p = None, path_p = ''/caf'' @ [CHR 0xC9], sessions_p = [],
      created_at_p = 1, isUserProject = False, databaseId = None\<rparr>"

definition scenarioRepository :: Repository where
  "scenarioRepository =
     \<lparr>rows = [\<lparr>id_u = 1, name_u = ''a'', path_u = ''/a'', description_u = None,
               is_active = True, created_at_u = 1000, updated_at_u = 1000\<rparr>],
      next_id = 2\<rparr>"

text \<open>A store in which the left panel was collapsed, the right panel's flag and width
  were written in a form \<open>loadUIState\<close> does not read, and nothing else was stored.\<close>

definition scenarioStore :: "string \<rightharpoonup> string" where
  "scenarioStore =
     [''ui.leftPanel.collapsed'' \<mapsto> ''true'', ''ui.rightPanel.collapsed'' \<mapsto> ''TRUE'',
      ''ui.rightPanel.width'' \<mapsto> ''wide'']"

definition scenarioFs :: "string \<rightharpoonup> FsNode" where
  "scenarioFs = [''/a'' \<mapsto> Directory, ''/b'' \<mapsto> Directory, ''/f'' \<mapsto> NotDirectory]"

section \<open>Properties of the project lists\<close>

text \<open>
  C5: when both adapters answer, the merged list is the registered projects followed by
  the discovered ones: it has \<open>length A + length B\<close> entries, its first \<open>length A\<close>
  entries are \<open>A\<close> and the rest is \<open>B\<close>, each in the order its source gave.
\<close>

theorem loadProjects_merge_append:
  "projects (loadProjects (Some B) (Some A) st) = A @ B
   \<and> length (projects (loadProjects (Some B) (Some A) st)) = length A + length B
   \<and> take (length A) (projects (loadProjects (Some B) (Some A) st)) = A
   \<and> drop (length A) (projects (loadProjects (Some B) (Some A) st)) = B
   \<and> userProjects (loadProjects (Some B) (Some A) st) = A
   \<and> claudeProjects (loadProjects (Some B) (Some A) st) = B"
  by (simp add: loadProjects_def called_def Let_def)

lemma toLowerChar_code:
  "(of_char (toLowerChar c) :: nat) =
     (if (65 \<le> (of_char c :: nat) \<and> (of_char c :: nat) \<le> 90)
         \<or> (192 \<le> (of_char c :: nat) \<and> (of_char c :: nat) \<le> 214)
         \<or> (216 \<le> (of_char c :: nat) \<and> (of_char c :: nat) \<le> 222)
      then of_char c + 32 else of_char c)"
  by (simp add: toLowerChar_def Let_def)

lemma toLowerChar_idem: "toLowerChar (toLowerChar c) = toLowerChar c"
proof (rule of_char_eqI [where 'a = nat])
  show "(of_char (toLowerChar (toLowerChar c)) :: nat) = of_char (toLowerChar c)"
    by (simp add: toLowerChar_code [of "toLowerChar c"]) (simp add: toLowerChar_code [of c])
qed

lemma toLowerCase_idem: "toLowerCase (toLowerCase s) = toLowerCase s"
  by (simp add: toLowerCase_def toLowerChar_idem)

lemma toLowerCase_codes:
  "map of_char (toLowerCase s) =
     map (\<lambda>c. if (65 \<le> (of_char c :: nat) \<and> (of_char c :: nat) \<le> 90)
                  \<or> (192 \<le> (of_char c :: nat) \<and> (of_char c :: nat) \<le> 214)
                  \<or> (216 \<le> (of_char c :: nat) \<and> (of_char c :: nat) \<le> 222)
               then of_char c + 32 else (of_char c :: nat)) s"
  by (simp add: toLowerCase_def toLowerChar_code)

lemma matchesQuery_lower: "matchesQuery (toLowerCase q) = matchesQuery q"
  by (rule ext) (simp add: matchesQuery_def toLowerCase_idem)

lemma matchesQuery_empty: "matchesQuery [] p"
  by (simp add: matchesQuery_def includes_str_def toLowerCase_def)

lemma matchesQuery_same_lower:
  "toLowerCase q = toLowerCase q' \<Longrightarrow> matchesQuery q = matchesQuery q'"
  by (rule ext) (simp add: matchesQuery_def)

text \<open>
  C6: the text filter is idempotent and keeps the relative order of the list it is given
  (its result is a subsequence). It keeps exactly the projects of the list whose
  lower-cased path or lower-cased identifier has the lower-cased query as a contiguous
  part, where lower-casing keeps the length and moves the code units of capital letters,
  and no others, up by 32. So two queries with the same lower-case form filter alike, a
  query filters like its lower-case form, two projects whose paths and identifiers have
  the same lower-case forms are kept or dropped together, and the empty query keeps
  everything. Each filtered group is computed from its own source list alone, and typing a
  query changes neither source list.
\<close>

theorem filterProjects_idempotent:
  "filterProjects (filterProjects L q) q = filterProjects L q
   \<and> subseq (filterProjects L q) L
   \<and> (\<forall>p. p \<in> set (filterProjects L q) \<longleftrightarrow>
          p \<in> set L \<and> ((\<exists>ps ss. toLowerCase (path_p p) = ps @ toLowerCase q @ ss)
                       \<or> (\<exists>ps ss. toLowerCase (id_p p) = ps @ toLowerCase q @ ss)))
   \<and> map of_char (toLowerCase s) =
       map (\<lambda>c. if (65 \<le> (of_char c :: nat) \<and> (of_char c :: nat) \<le> 90)
                    \<or> (192 \<le> (of_char c :: nat) \<and> (of_char c :: nat) \<le> 214)
                    \<or> (216 \<le> (of_char c :: nat) \<and> (of_char c :: nat) \<le> 222)
                 then of_char c + 32 else (of_char c :: nat)) s
   \<and> (toLowerCase q = toLowerCase q' \<longrightarrow> filterProjects L q = filterProjects L q')
   \<and> filterProjects L (toLowerCase q) = filterProjects L q
   \<and> (toLowerCase (path_p p) = toLowerCase (path_p p')
        \<and> toLowerCase (id_p p) = toLowerCase (id_p p') \<longrightarrow>
        matchesQuery q p = matchesQuery q p')
   \<and> filterProjects L [] = L
   \<and> filteredUserProjects st = filterProjects (userProjects st) (searchQuery st)
   \<and> filteredClaudeProjects st = filterProjects (claudeProjects st) (searchQuery st)
   \<and> filteredUserProjects (st\<lparr>claudeProjects := B'\<rparr>) = filteredUserProjects st
   \<and> filteredClaudeProjects (st\<lparr>userProjects := A'\<rparr>) = filteredClaudeProjects st
   \<and> searchQuery (setSearchQuery q'' st) = q''
   \<and> userProjects (setSearchQuery q'' st) = userProjects st
   \<and> claudeProjects (setSearchQuery q'' st) = claudeProjects st"
proof -
  have idem: "filterProjects (filterProjects L q) q = filterProjects L q"
    by (simp add: filterProjects_def)
  have order: "subseq (filterProjects L q) L"
    by (simp add: filterProjects_def)
  have member: "\<forall>p. p \<in> set (filterProjects L q) \<longleftrightarrow>
          p \<in> set L \<and> ((\<exists>ps ss. toLowerCase (path_p p) = ps @ toLowerCase q @ ss)
                       \<or> (\<exists>ps ss. toLowerCase (id_p p) = ps @ toLowerCase q @ ss))"
    by (simp add: filterProjects_def matchesQuery_def includes_str_def sublist_def)
  have same: "toLowerCase q = toLowerCase q' \<longrightarrow> filterProjects L q = filterProjects L q'"
  proof
    assume "toLowerCase q = toLowerCase q'"
    then have "matchesQuery q = matchesQuery q'"
      by (rule matchesQuery_same_lower)
    then show "filterProjects L q = filterProjects L q'"
      by (simp only: filterProjects_def)
  qed
  have lower: "filterProjects L (toLowerCase q) = filterProjects L q"
    by (simp add: filterProjects_def matchesQuery_lower)
  have fields: "toLowerCase (path_p p) = toLowerCase (path_p p')
        \<and> toLowerCase (id_p p) = toLowerCase (id_p p') \<longrightarrow>
        matchesQuery q p = matchesQuery q p'"
    by (simp add: matchesQuery_def)
  have empty: "filterProjects L [] = L"
    by (simp add: filterProjects_def matchesQuery_empty)
  have groups: "filteredUserProjects st = filterProjects (userProjects st) (searchQuery st)"
    "filteredClaudeProjects st = filterProjects (claudeProjects st) (searchQuery st)"
    "filteredUserProjects (st\<lparr>claudeProjects := B'\<rparr>) = filteredUserProjects st"
    "filteredClaudeProjects (st\<lparr>userProjects := A'\<rparr>) = filteredClaudeProjects st"
    by (simp_all add: filteredUserProjects_def filteredClaudeProjects_def)
  have pure: "searchQuery (setSearchQuery q'' st) = q''"
    "userProjects (setSearchQuery q'' st) = userProjects st"
    "claudeProjects (setSearchQuery q'' st) = claudeProjects st"
    by (simp_all add: setSearchQuery_def)
  from idem order member toLowerCase_codes [of s] same lower fields empty groups pure
  show ?thesis by (intro conjI)
qed

text \<open>
  The registry holds \<open>/a\<close>, discovery holds \<open>/a-other\<close> and a path that ends in a capital
  E with an acute accent: the query \<open>a-other\<close>, in either case, keeps the second project
  only, the small e with an acute accent keeps the third only, and \<open>p\<close> keeps all three,
  by their identifiers.
\<close>

theorem filterProjects_idempotent_witness:
  "toLowerCase ''A-OTHER'' = toLowerCase ''a-other''
   \<and> filterProjects [scenarioProject, scenarioDiscovered, scenarioAccented] ''a-other'' = [scenarioDiscovered]
   \<and> filterProjects [scenarioProject, scenarioDiscovered, scenarioAccented] ''A-OTHER'' = [scenarioDiscovered]
   \<and> filterProjects [scenarioProject, scenarioDiscovered, scenarioAccented] [CHR 0xE9] = [scenarioAccented]
   \<and> filterProjects [scenarioProject, scenarioDiscovered, scenarioAccented] ''p'' = [scenarioProject, scenarioDiscovered, scenarioAccented]
   \<and> filterProjects [scenarioProject, scenarioDiscovered, scenarioAccented] ''b'' = []"
proof -
  have lo: "toLowerCase ''A-OTHER'' = toLowerCase ''a-other''"
    by code_simp
  have small: "filterProjects [scenarioProject, scenarioDiscovered, scenarioAccented] ''a-other'' = [scenarioDiscovered]"
    by code_simp
  have accent: "filterProjects [scenarioProject, scenarioDiscovered, scenarioAccented] [CHR 0xE9] = [scenarioAccented]"
    by code_simp
  have ids: "filterProjects [scenarioProject, scenarioDiscovered, scenarioAccented] ''p'' = [scenarioProject, scenarioDiscovered, scenarioAccented]"
    by code_simp
  have none: "filterProjects [scenarioProject, scenarioDiscovered, scenarioAccented] ''b'' = []"
    by code_simp
  note same = filterProjects_idempotent
         [of "[scenarioProject, scenarioDiscovered, scenarioAccented]" "''A-OTHER''" "[]" "''a-other''",
          THEN conjunct2, THEN conjunct2, THEN conjunct2, THEN conjunct2, THEN conjunct1]
  from same lo
  have "filterProjects [scenarioProject, scenarioDiscovered, scenarioAccented] ''A-OTHER'' = filterProjects [scenarioProject, scenarioDiscovered, scenarioAccented] ''a-other''"
    by (rule mp)
  with small have capital: "filterProjects [scenarioProject, scenarioDiscovered, scenarioAccented] ''A-OTHER'' = [scenarioDiscovered]"
    by simp
  from lo small capital accent ids none show ?thesis by (intro conjI)
qed

section \<open>Properties of the restored layout\<close>

lemma parseInt_undefined: "parseInt ''undefined'' = None"
  by (simp add: parseInt_def isWhiteSpace_def isRadixDigit_def digitValue_def Let_def)

lemma parseIntOr_absent: "parseIntOr None d = d"
  by (simp add: parseIntOr_def toStringArg_def parseInt_undefined)

lemma parseIntOr_NaN: "parseInt v = None \<Longrightarrow> parseIntOr (Some v) d = d"
  by (simp add: parseIntOr_def toStringArg_def)

lemma loadUIState_uiState:
  "uiState (loadUIState True st) =
     \<lparr>leftPanelCollapsed = (settingsStore st ''ui.leftPanel.collapsed'' = Some ''true''),
      rightPanelCollapsed = (settingsStore st ''ui.rightPanel.collapsed'' = Some ''true''),
      leftPanelWidth = parseIntOr (settingsStore st ''ui.leftPanel.width'') 300,
      rightPanelWidth = parseIntOr (settingsStore st ''ui.rightPanel.width'') 300,
      claudeProjectsCollapsed =
        (settingsStore st ''ui.claudeProjects.collapsed'' \<noteq> Some ''false'')\<rparr>"
proof -
  have keys: "''ui.leftPanel.collapsed'' \<in> set uiSettingsKeys"
    "''ui.rightPanel.collapsed'' \<in> set uiSettingsKeys"
    "''ui.leftPanel.width'' \<in> set uiSettingsKeys"
    "''ui.rightPanel.width'' \<in> set uiSettingsKeys"
    "''ui.claudeProjects.collapsed'' \<in> set uiSettingsKeys"
    by (simp_all add: uiSettingsKeys_def)
  then show ?thesis
    by (simp add: loadUIState_def api_getSettings_def called_def Let_def DEFAULT_UI_STATE_def
          del: set_simps)
qed

lemma digitValue_digit_char: "d < 10 \<Longrightarrow> digitValue (digit_char d) = Some d"
  by (simp add: digitValue_def digit_char_def Let_def)

lemma isRadixDigit_digit_char: "d < 10 \<Longrightarrow> isRadixDigit 10 (digit_char d)"
  by (simp add: isRadixDigit_def digitValue_digit_char)

lemma digit_char_plain:
  "d < 10 \<Longrightarrow> \<not> isWhiteSpace (digit_char d) \<and> digit_char d \<noteq> CHR ''-''
     \<and> digit_char d \<noteq> CHR ''+'' \<and> digit_char d \<noteq> CHR ''x'' \<and> digit_char d \<noteq> CHR ''X''"
proof -
  assume d: "d < 10"
  have oc: "(of_char (digit_char d) :: nat) = 48 + d"
    using d by (simp add: digit_char_def)
  have ne: "digit_char d \<noteq> c" if "(of_char c :: nat) \<noteq> 48 + d" for c
    using that oc by auto
  show ?thesis
    using d oc by (auto simp: isWhiteSpace_def intro!: ne)
qed

lemma string_of_nat_digits: "string_of_nat n \<noteq> [] \<and> isDigits (string_of_nat n)"
proof (induction n rule: string_of_nat.induct)
  case (1 n)
  show ?case
  proof (cases "n < 10")
    case True
    then show ?thesis by (subst (1 2) string_of_nat.simps) (auto simp: isDigits_def)
  next
    case False
    have "\<exists>d<10. digit_char (n mod 10) = digit_char d"
      by (rule exI [of _ "n mod 10"]) simp
    with False 1 show ?thesis
      by (subst (1 2) string_of_nat.simps) (auto simp: isDigits_def)
  qed
qed

lemma digitsValue_string_of_nat: "digitsValue 10 (string_of_nat n) = n"
proof (induction n rule: string_of_nat.induct)
  case (1 n)
  show ?case
  proof (cases "n < 10")
    case True
    then show ?thesis
      by (subst string_of_nat.simps) (simp add: digitsValue_def digitValue_digit_char)
  next
    case False
    with 1 have "digitsValue 10 (string_of_nat (n div 10)) = n div 10" by simp
    with False show ?thesis
      by (subst string_of_nat.simps) (simp add: digitsValue_def digitValue_digit_char)
  qed
qed

lemma isDigits_plain:
  assumes "isDigits s" and "s \<noteq> []"
  shows "dropWhile isWhiteSpace s = s" and "hd s \<noteq> CHR ''-''" and "hd s \<noteq> CHR ''+''"
    and "\<not> (2 \<le> length s \<and> (take 2 s = ''0x'' \<or> take 2 s = ''0X''))"
    and "takeWhile (isRadixDigit 10) s = s"
proof -
  obtain c cs where s: "s = c # cs" using assms(2) by (cases s) auto
  from assms(1) s obtain d where d: "d < 10" "c = digit_char d"
    by (auto simp: isDigits_def)
  show "dropWhile isWhiteSpace s = s" "hd s \<noteq> CHR ''-''" "hd s \<noteq> CHR ''+''"
    using s d digit_char_plain [of d] by simp_all
  show "takeWhile (isRadixDigit 10) s = s"
    using assms(1) by (auto simp: isDigits_def takeWhile_eq_all_conv isRadixDigit_digit_char)
  show "\<not> (2 \<le> length s \<and> (take 2 s = ''0x'' \<or> take 2 s = ''0X''))"
  proof (cases cs)
    case Nil
    with s show ?thesis by simp
  next
    case (Cons c' cs')
    with assms(1) s obtain d' where "d' < 10" "c' = digit_char d'"
      by (auto simp: isDigits_def)
    with Cons s digit_char_plain [of d'] show ?thesis
      by (auto simp: numeral_2_eq_2)
  qed
qed

lemma parseInt_string_of_nat: "parseInt (string_of_nat n) = Some (int n)"
proof -
  note p = isDigits_plain [OF string_of_nat_digits [THEN conjunct2] string_of_nat_digits [THEN conjunct1], of n]
  show ?thesis
    using string_of_nat_digits [of n]
    by (simp add: parseInt_def p digitsValue_string_of_nat Let_def)
qed

text \<open>A width written in decimal is read back as it was written (up to $2^{53}$, beyond
  which a number of the host language is no longer exact).\<close>

lemma loadUIState_restores_width:
  assumes "settingsStore st ''ui.leftPanel.width'' = Some (string_of_nat n)" and "0 < n"
    and "n \<le> 2 ^ 53"
  shows "leftPanelWidth (uiState (loadUIState True st)) = int n"
  using assms
  by (simp add: loadUIState_uiState parseIntOr_def toStringArg_def parseInt_string_of_nat)

text \<open>
  C8: when the settings are read, the two panel collapse flags are true exactly when the
  stored string is \<open>true\<close> and are otherwise their default, false; the discovered-projects
  flag is collapsed exactly when the stored string is not \<open>false\<close>, which is its default;
  a width whose key is absent, or whose stored string \<open>parseInt\<close> cannot read, is 300.
\<close>

theorem loadUIState_resolution:
  "leftPanelCollapsed (uiState (loadUIState True st))
      = (settingsStore st ''ui.leftPanel.collapsed'' = Some ''true'')
   \<and> rightPanelCollapsed (uiState (loadUIState True st))
      = (settingsStore st ''ui.rightPanel.collapsed'' = Some ''true'')
   \<and> claudeProjectsCollapsed (uiState (loadUIState True st))
      = (settingsStore st ''ui.claudeProjects.collapsed'' \<noteq> Some ''false'')
   \<and> (settingsStore st ''ui.leftPanel.collapsed'' \<noteq> Some ''true'' \<longrightarrow>
        leftPanelCollapsed (uiState (loadUIState True st))
          = leftPanelCollapsed DEFAULT_UI_STATE)
   \<and> (settingsStore st ''ui.rightPanel.collapsed'' \<noteq> Some ''true'' \<longrightarrow>
        rightPanelCollapsed (uiState (loadUIState True st))
          = rightPanelCollapsed DEFAULT_UI_STATE)
   \<and> (settingsStore st ''ui.claudeProjects.collapsed'' \<noteq> Some ''false'' \<longrightarrow>
        claudeProjectsCollapsed (uiState (loadUIState True st))
          = claudeProjectsCollapsed DEFAULT_UI_STATE)
   \<and> \<not> leftPanelCollapsed DEFAULT_UI_STATE \<and> \<not> rightPanelCollapsed DEFAULT_UI_STATE
   \<and> claudeProjectsCollapsed DEFAULT_UI_STATE
   \<and> (settingsStore st ''ui.leftPanel.width'' = None \<longrightarrow>
        leftPanelWidth (uiState (loadUIState True st)) = 300)
   \<and> (settingsStore st ''ui.rightPanel.width'' = None \<longrightarrow>
        rightPanelWidth (uiState (loadUIState True st)) = 300)
   \<and> (\<forall>v. settingsStore st ''ui.leftPanel.width'' = Some v \<and> parseInt v = None \<longrightarrow>
        leftPanelWidth (uiState (loadUIState True st)) = 300)
   \<and> (\<forall>v. settingsStore st ''ui.rightPanel.width'' = Some v \<and> parseInt v = None \<longrightarrow>
        rightPanelWidth (uiState (loadUIState True st)) = 300)"
  unfolding loadUIState_uiState
  by (simp add: DEFAULT_UI_STATE_def parseIntOr_absent parseIntOr_NaN)

theorem loadUIState_resolution_witness:
  "leftPanelCollapsed (uiState (loadUIState True (initialState scenarioStore)))
   \<and> \<not> rightPanelCollapsed (uiState (loadUIState True (initialState scenarioStore)))
   \<and> claudeProjectsCollapsed (uiState (loadUIState True (initialState scenarioStore)))
   \<and> leftPanelWidth (uiState (loadUIState True (initialState scenarioStore))) = 300
   \<and> rightPanelWidth (uiState (loadUIState True (initialState scenarioStore))) = 300
   \<and> settingsStore (initialState scenarioStore) ''ui.leftPanel.width'' = None
   \<and> settingsStore (initialState scenarioStore) ''ui.rightPanel.width'' = Some ''wide''
   \<and> parseInt ''wide'' = None"
proof -
  have nan: "parseInt ''wide'' = None"
    by (simp add: parseInt_def isWhiteSpace_def isRadixDigit_def digitValue_def Let_def)
  show ?thesis
    using nan loadUIState_resolution [of "initialState scenarioStore"]
    by (simp add: initialState_def scenarioStore_def)
qed

section \<open>Properties of the session lifecycle\<close>

subsection \<open>The placeholder identifier and the invariants of the state\<close>

lemma tempSessionId_not_UUID: "\<not> isUUIDFormat (tempSessionId t1)"
  by (simp add: isUUIDFormat_def tempSessionId_def upt_conv_Cons isHexDigit_def)

lemma filter_confirmed: "sessionsConfirmed ss \<Longrightarrow> filter isTemporary ss = []"
  by (induction ss) (auto simp: sessionsConfirmed_def)

lemma sessionsConfirmed_received:
  "sessionsConfirmed (received n ss) = sessionsConfirmed ss"
  by (induction ss arbitrary: n) (auto simp: sessionsConfirmed_def received_def enumerate_simps)

lemma sessionsConfirmed_initialState: "sessionsConfirmed (sessions (initialState store))"
  by (simp add: initialState_def sessionsConfirmed_def)

lemma sessionsConfirmed_loadSessions:
  "(case answer of None \<Rightarrow> True | Some ss \<Rightarrow> sessionsConfirmed ss) \<Longrightarrow>
     sessionsConfirmed (sessions (loadSessions answer p st))"
  by (auto simp: loadSessions_def called_def sessionsConfirmed_received split: option.splits)
     (simp add: sessionsConfirmed_def)

lemma sessionsConfirmed_handleProjectSelect:
  "(case answer of None \<Rightarrow> True | Some ss \<Rightarrow> sessionsConfirmed ss) \<Longrightarrow>
     sessionsConfirmed (sessions (handleProjectSelect answer ok p st))"
  using sessionsConfirmed_loadSessions [of answer p "st\<lparr>currentProject := Some p, currentSession := None\<rparr>"]
  by (simp add: handleProjectSelect_def api_setSetting_def called_def Let_def)

lemma sessions_handleSessionSelect: "sessions (handleSessionSelect ok s st) = sessions st"
  by (simp add: handleSessionSelect_def api_setSetting_def called_def Let_def)

lemma sessions_handleCreateNewSession:
  "sessions (handleCreateNewSession t1 t2 st) = sessions st"
  by (simp add: handleCreateNewSession_def split: option.splits)

lemma sessionsConfirmed_onSessionCreated:
  "sessionsConfirmed (sessions st) \<Longrightarrow> sessionsConfirmed (sessions (onSessionCreated r t st))"
  by (auto simp: onSessionCreated_def sessionsConfirmed_def list_all_iff split: option.splits)

lemma refs_received: "s \<in> set (received n ss) \<Longrightarrow> ref s < n + length ss"
  by (auto simp: received_def enumerate_eq_zip in_set_zip)

lemma refsAllocated_initialState: "refsAllocated (initialState store)"
  by (simp add: initialState_def refsAllocated_def)

lemma refsAllocated_handleProjectSelect:
  "refsAllocated (handleProjectSelect answer ok p st)"
  by (auto simp: handleProjectSelect_def api_setSetting_def loadSessions_def called_def
      refsAllocated_def list_all_iff Let_def dest: refs_received split: option.splits)

lemma refsAllocated_handleSessionSelect:
  "refsAllocated st \<Longrightarrow> s \<in> set (allSessions st) \<Longrightarrow>
     refsAllocated (handleSessionSelect ok s st)"
  by (auto simp: handleSessionSelect_def api_setSetting_def called_def refsAllocated_def
      allSessions_def list_all_iff Let_def split: option.splits if_splits)

lemma refsAllocated_handleCreateNewSession:
  "refsAllocated st \<Longrightarrow> refsAllocated (handleCreateNewSession t1 t2 st)"
  by (auto simp: handleCreateNewSession_def refsAllocated_def list_all_iff less_Suc_eq
      split: option.splits)

lemma refsAllocated_onSessionCreated:
  "refsAllocated st \<Longrightarrow> refsAllocated (onSessionCreated r t st)"
  by (auto simp: onSessionCreated_def refsAllocated_def list_all_iff less_Suc_eq
      split: option.splits)

subsection \<open>The scenario, evaluated\<close>

lemmas handler_defs =
  handleProjectSelect_def handleSessionSelect_def handleCreateNewSession_def
  onSessionCreated_def loadSessions_def api_setSetting_def called_def received_def
  initialState_def allSessions_def sessionKey_def sessionProp_def

lemmas scenario_defs =
  scenarioProject_def scenarioHistory_def scenarioSelected_def scenarioPlaceholder_def

lemma scenarioSelected_fields:
  "currentProject scenarioSelected = Some scenarioProject"
  "currentSession scenarioSelected = None"
  "nextRef scenarioSelected = 2"
  "sessions scenarioSelected =
     [\<lparr>ref = 0, id_s = ''R1'', project_id = ''P1'', project_path = ''/a'', created_at = 2,
       isTemporary = False, isNewlyCreated = False, first_message = Some ''hello''\<rparr>,
      \<lparr>ref = 1, id_s = ''S2'', project_id = ''P1'', project_path = ''/a'', created_at = 3,
       isTemporary = False, isNewlyCreated = False, first_message = None\<rparr>]"
  "settingsStore scenarioSelected ''ui.currentProject.id'' = Some ''P1''"
  "settingsStore scenarioSelected ''ui.currentSession.id'' = None"
  "apiCalls scenarioSelected =
     [GetProjectSessions ''P1'', SetSetting ''ui.currentProject.id'' ''P1'']"
  by (simp_all add: scenario_defs handler_defs enumerate_simps sessionsConfirmed_def Let_def)

lemma digit_char_values:
  "digit_char 0 = CHR ''0''" "digit_char (Suc 0) = CHR ''1''" "digit_char 2 = CHR ''2''"
  "digit_char 3 = CHR ''3''" "digit_char 4 = CHR ''4''" "digit_char 5 = CHR ''5''"
  "digit_char 6 = CHR ''6''" "digit_char 7 = CHR ''7''" "digit_char 8 = CHR ''8''"
  "digit_char 9 = CHR ''9''"
  unfolding digit_char_def by (rule of_char_eqI [where 'a = nat], simp)+

lemma string_of_nat_5000: "string_of_nat 5000 = ''5000''"
  by (simp add: string_of_nat.simps digit_char_values)

lemma string_of_nat_6000: "string_of_nat 6000 = ''6000''"
  by (simp add: string_of_nat.simps digit_char_values)

lemma scenarioPlaceholder_fields:
  "currentProject scenarioPlaceholder = Some scenarioProject"
  "currentSession scenarioPlaceholder =
     Some \<lparr>ref = 2, id_s = ''new-session-5000'', project_id = ''P1'', project_path = ''/a'',
           created_at = 5, isTemporary = True, isNewlyCreated = False, first_message = None\<rparr>"
  "sessions scenarioPlaceholder = sessions scenarioSelected"
  "nextRef scenarioPlaceholder = 3"
  "settingsStore scenarioPlaceholder = settingsStore scenarioSelected"
  "apiCalls scenarioPlaceholder = apiCalls scenarioSelected"
  by (simp_all add: scenarioPlaceholder_def handleCreateNewSession_def scenarioSelected_fields
      tempSessionId_def string_of_nat_5000 scenarioProject_def)

subsection \<open>Creating a placeholder\<close>

text \<open>
  C4: with a project selected, the new-session action selects a session whose identifier
  is \<open>new-session-\<close> followed by the clock reading in decimal, which is never of the
  UUID form of a real identifier; its \<open>created_at\<close> is the clock reading in seconds, it
  is marked temporary and has no first message. No call on the \<open>api\<close> object is made,
  the store and the loaded sessions stay as they were. The panel then shows at most one
  placeholder, the new one, whatever was selected before.
\<close>

theorem handleCreateNewSession_placeholder:
  assumes "currentProject st = Some p"
  shows "currentSession (handleCreateNewSession t1 t2 st) =
           Some \<lparr>ref = nextRef st, id_s = tempSessionId t1, project_id = id_p p,
                 project_path = path_p p, created_at = t2 div 1000, isTemporary = True,
                 isNewlyCreated = False, first_message = None\<rparr>
         \<and> tempSessionId t1 = ''new-session-'' @ string_of_nat t1
         \<and> \<not> isUUIDFormat (tempSessionId t1)
         \<and> apiCalls (handleCreateNewSession t1 t2 st) = apiCalls st
         \<and> settingsStore (handleCreateNewSession t1 t2 st) = settingsStore st
         \<and> sessions (handleCreateNewSession t1 t2 st) = sessions st
         \<and> currentProject (handleCreateNewSession t1 t2 st) = Some p
         \<and> (sessionsConfirmed (sessions st) \<longrightarrow>
              filter isTemporary (allSessions (handleCreateNewSession t1 t2 st)) =
                (if list_ex (\<lambda>s. id_s s = tempSessionId t1) (sessions st) then []
                 else [\<lparr>ref = nextRef st, id_s = tempSessionId t1, project_id = id_p p,
                        project_path = path_p p, created_at = t2 div 1000, isTemporary = True,
                        isNewlyCreated = False, first_message = None\<rparr>])
              \<and> length (filter isTemporary (allSessions (handleCreateNewSession t1 t2 st))) \<le> 1)"
proof -
  let ?tmp = "\<lparr>ref = nextRef st, id_s = tempSessionId t1, project_id = id_p p,
                 project_path = path_p p, created_at = t2 div 1000, isTemporary = True,
                 isNewlyCreated = False, first_message = None\<rparr>"
  let ?st' = "handleCreateNewSession t1 t2 st"
  have st': "?st' = st\<lparr>currentSession := Some ?tmp, nextRef := Suc (nextRef st)\<rparr>"
    using assms by (simp add: handleCreateNewSession_def)
  have shown: "sessionsConfirmed (sessions st) \<longrightarrow>
      filter isTemporary (allSessions ?st') =
        (if list_ex (\<lambda>s. id_s s = tempSessionId t1) (sessions st) then [] else [?tmp])
      \<and> length (filter isTemporary (allSessions ?st')) \<le> 1"
    unfolding st' by (simp add: allSessions_def filter_confirmed)
  have fmt: "tempSessionId t1 = ''new-session-'' @ string_of_nat t1"
    by (simp add: tempSessionId_def)
  have rest: "currentSession ?st' = Some ?tmp" "apiCalls ?st' = apiCalls st"
    "settingsStore ?st' = settingsStore st" "sessions ?st' = sessions st"
    "currentProject ?st' = Some p"
    unfolding st' using assms by simp_all
  from rest fmt tempSessionId_not_UUID [of t1] shown show ?thesis
    by (intro conjI)
qed

theorem handleCreateNewSession_placeholder_witness:
  "currentSession (handleCreateNewSession 6000 6000 scenarioPlaceholder) =
     Some \<lparr>ref = 3, id_s = ''new-session-6000'', project_id = ''P1'', project_path = ''/a'',
           created_at = 6, isTemporary = True, isNewlyCreated = False, first_message = None\<rparr>
   \<and> map id_s (allSessions (handleCreateNewSession 6000 6000 scenarioPlaceholder))
        = [''new-session-6000'', ''R1'', ''S2'']
   \<and> map id_s (filter isTemporary (allSessions scenarioPlaceholder)) = [''new-session-5000'']
   \<and> map id_s (filter isTemporary
        (allSessions (handleCreateNewSession 6000 6000 scenarioPlaceholder)))
        = [''new-session-6000'']
   \<and> \<not> isUUIDFormat ''new-session-6000''
   \<and> apiCalls (handleCreateNewSession 6000 6000 scenarioPlaceholder)
        = apiCalls scenarioPlaceholder"
proof -
  have conf: "sessionsConfirmed (sessions scenarioPlaceholder)"
    by (simp add: scenarioPlaceholder_fields scenarioSelected_fields sessionsConfirmed_def)
  have id6: "tempSessionId 6000 = ''new-session-6000''"
    by (simp add: tempSessionId_def string_of_nat_6000)
  have fresh: "\<not> list_ex (\<lambda>s. id_s s = ''new-session-6000'') (sessions scenarioPlaceholder)"
    by (simp add: scenarioPlaceholder_fields scenarioSelected_fields)
  have before: "map id_s (filter isTemporary (allSessions scenarioPlaceholder))
      = [''new-session-5000'']"
    by (simp add: allSessions_def scenarioPlaceholder_fields scenarioSelected_fields)
  note w = handleCreateNewSession_placeholder
      [OF scenarioPlaceholder_fields(1), of 6000 6000, unfolded id6]
  from w have cur: "currentSession (handleCreateNewSession 6000 6000 scenarioPlaceholder) =
     Some \<lparr>ref = nextRef scenarioPlaceholder, id_s = ''new-session-6000'',
           project_id = id_p scenarioProject, project_path = path_p scenarioProject,
           created_at = 6000 div 1000, isTemporary = True, isNewlyCreated = False,
           first_message = None\<rparr>"
    by (rule conjunct1)
  from w have uuid: "\<not> isUUIDFormat ''new-session-6000''"
    and calls: "apiCalls (handleCreateNewSession 6000 6000 scenarioPlaceholder)
        = apiCalls scenarioPlaceholder"
    and same: "sessions (handleCreateNewSession 6000 6000 scenarioPlaceholder)
        = sessions scenarioPlaceholder"
    by blast+
  from w conf fresh have shown:
    "filter isTemporary (allSessions (handleCreateNewSession 6000 6000 scenarioPlaceholder)) =
       [\<lparr>ref = nextRef scenarioPlaceholder, id_s = ''new-session-6000'',
           project_id = id_p scenarioProject, project_path = path_p scenarioProject,
           created_at = 6000 div 1000, isTemporary = True, isNewlyCreated = False,
           first_message = None\<rparr>]"
    by presburger
  have all: "map id_s (allSessions (handleCreateNewSession 6000 6000 scenarioPlaceholder))
        = [''new-session-6000'', ''R1'', ''S2'']"
    using fresh
    by (simp add: allSessions_def cur same scenarioPlaceholder_fields scenarioSelected_fields)
  have cur': "currentSession (handleCreateNewSession 6000 6000 scenarioPlaceholder) =
     Some \<lparr>ref = 3, id_s = ''new-session-6000'', project_id = ''P1'', project_path = ''/a'',
           created_at = 6, isTemporary = True, isNewlyCreated = False, first_message = None\<rparr>"
    by (simp add: cur scenarioPlaceholder_fields scenarioProject_def)
  have shown': "map id_s (filter isTemporary
        (allSessions (handleCreateNewSession 6000 6000 scenarioPlaceholder)))
        = [''new-session-6000'']"
    by (simp add: shown)
  from cur' all before shown' uuid calls show ?thesis
    by (intro conjI)
qed

subsection \<open>Reconciling the placeholder\<close>

text \<open>
  C2: when the selected session is a placeholder and the callback reports the identifier
  \<open>r\<close>, the session list becomes a new confirmed entry with identifier \<open>r\<close> followed by
  the old entries whose identifier is not \<open>r\<close>; so exactly one entry has identifier
  \<open>r\<close>, and the panel shows the list as it is, with no placeholder in it.
\<close>

theorem onSessionCreated_reconciles_list:
  assumes "currentProject st = Some p" and "currentSession st = Some cs" and "isTemporary cs"
    and "sessionsConfirmed (sessions st)"
  shows "sessions (onSessionCreated r t st) =
           \<lparr>ref = nextRef st, id_s = r, project_id = id_p p, project_path = path_p p,
            created_at = t div 1000, isTemporary = False, isNewlyCreated = True,
            first_message = None\<rparr> # filter (\<lambda>s. id_s s \<noteq> r) (sessions st)
         \<and> id_s (hd (sessions (onSessionCreated r t st))) = r
         \<and> \<not> isTemporary (hd (sessions (onSessionCreated r t st)))
         \<and> length (filter (\<lambda>s. id_s s = r) (sessions (onSessionCreated r t st))) = 1
         \<and> allSessions (onSessionCreated r t st) = sessions (onSessionCreated r t st)
         \<and> filter isTemporary (allSessions (onSessionCreated r t st)) = []"
proof -
  let ?new = "\<lparr>ref = nextRef st, id_s = r, project_id = id_p p, project_path = path_p p,
            created_at = t div 1000, isTemporary = False, isNewlyCreated = True,
            first_message = None\<rparr>"
  let ?st' = "onSessionCreated r t st"
  have s: "sessions ?st' = ?new # filter (\<lambda>s. id_s s \<noteq> r) (sessions st)"
    using assms by (simp add: onSessionCreated_def)
  have c: "currentSession ?st' =
      Some (cs\<lparr>ref := Suc (nextRef st), id_s := r, isNewlyCreated := True\<rparr>)"
    using assms by (simp add: onSessionCreated_def)
  have dedup: "filter (\<lambda>s. id_s s = r) (filter (\<lambda>s. id_s s \<noteq> r) (sessions st)) = []"
    by (simp add: filter_empty_conv)
  have all: "allSessions ?st' = sessions ?st'"
    by (simp add: allSessions_def c s)
  have conf: "sessionsConfirmed (sessions ?st')"
    by (rule sessionsConfirmed_onSessionCreated [OF assms(4)])
  show ?thesis
    using s dedup all filter_confirmed [OF conf] by simp
qed

theorem onSessionCreated_reconciles_list_witness:
  "map id_s (sessions scenarioPlaceholder) = [''R1'', ''S2'']
   \<and> map id_s (sessions (onSessionCreated ''R1'' 9000 scenarioPlaceholder)) = [''R1'', ''S2'']
   \<and> map id_s (sessions (onSessionCreated ''R7'' 9000 scenarioPlaceholder))
        = [''R7'', ''R1'', ''S2'']
   \<and> \<not> isTemporary (hd (sessions (onSessionCreated ''R1'' 9000 scenarioPlaceholder)))
   \<and> filter isTemporary (allSessions (onSessionCreated ''R1'' 9000 scenarioPlaceholder)) = []
   \<and> filter isTemporary (allSessions (onSessionCreated ''R7'' 9000 scenarioPlaceholder)) = []"
proof -
  have ids: "map id_s (sessions scenarioPlaceholder) = [''R1'', ''S2'']"
    by (simp add: scenarioPlaceholder_fields scenarioSelected_fields)
  have conf: "sessionsConfirmed (sessions scenarioPlaceholder)"
    by (simp add: scenarioPlaceholder_fields scenarioSelected_fields sessionsConfirmed_def)
  have f1: "map id_s (filter (\<lambda>s. id_s s \<noteq> ''R1'') (sessions scenarioPlaceholder)) = [''S2'']"
    by (simp add: scenarioPlaceholder_fields scenario_defs handler_defs enumerate_simps Let_def)
  have f7: "map id_s (filter (\<lambda>s. id_s s \<noteq> ''R7'') (sessions scenarioPlaceholder))
      = [''R1'', ''S2'']"
    by (simp add: scenarioPlaceholder_fields scenario_defs handler_defs enumerate_simps Let_def)
  have tmp: "isTemporary \<lparr>ref = 2, id_s = ''new-session-5000'', project_id = ''P1'',
      project_path = ''/a'', created_at = 5, isTemporary = True, isNewlyCreated = False,
      first_message = None\<rparr>"
    by simp
  note w1 = onSessionCreated_reconciles_list
        [OF scenarioPlaceholder_fields(1) scenarioPlaceholder_fields(2) tmp conf, of "''R1''" 9000]
  note w7 = onSessionCreated_reconciles_list
        [OF scenarioPlaceholder_fields(1) scenarioPlaceholder_fields(2) tmp conf, of "''R7''" 9000]
  from w1 have "sessions (onSessionCreated ''R1'' 9000 scenarioPlaceholder) =
      \<lparr>ref = nextRef scenarioPlaceholder, id_s = ''R1'', project_id = id_p scenarioProject,
       project_path = path_p scenarioProject, created_at = 9000 div 1000, isTemporary = False,
       isNewlyCreated = True, first_message = None\<rparr>
      # filter (\<lambda>s. id_s s \<noteq> ''R1'') (sessions scenarioPlaceholder)"
    by (rule conjunct1)
  then have s1: "map id_s (sessions (onSessionCreated ''R1'' 9000 scenarioPlaceholder))
      = ''R1'' # map id_s (filter (\<lambda>s. id_s s \<noteq> ''R1'') (sessions scenarioPlaceholder))"
    by simp
  from w7 have "sessions (onSessionCreated ''R7'' 9000 scenarioPlaceholder) =
      \<lparr>ref = nextRef scenarioPlaceholder, id_s = ''R7'', project_id = id_p scenarioProject,
       project_path = path_p scenarioProject, created_at = 9000 div 1000, isTemporary = False,
       isNewlyCreated = True, first_message = None\<rparr>
      # filter (\<lambda>s. id_s s \<noteq> ''R7'') (sessions scenarioPlaceholder)"
    by (rule conjunct1)
  then have s7: "map id_s (sessions (onSessionCreated ''R7'' 9000 scenarioPlaceholder))
      = ''R7'' # map id_s (filter (\<lambda>s. id_s s \<noteq> ''R7'') (sessions scenarioPlaceholder))"
    by simp
  from w1 have h1: "\<not> isTemporary (hd (sessions (onSessionCreated ''R1'' 9000 scenarioPlaceholder)))"
    and t1: "filter isTemporary (allSessions (onSessionCreated ''R1'' 9000 scenarioPlaceholder)) = []"
    by blast+
  from w7 have t7:
    "filter isTemporary (allSessions (onSessionCreated ''R7'' 9000 scenarioPlaceholder)) = []"
    by blast
  from ids s1 s7 h1 t1 t7 show ?thesis
    unfolding f1 f7 by (intro conjI)
qed

text \<open>
  C1, as stated, fails: the callback does not update the selected session object in place.
  The spread copy is a new object, so the object selected after the callback (identity 4)
  is not the one selected before (identity 2). Nor is the key free of the session
  identifier: for two confirmed sessions of one project the keys are the two session
  identifiers.
\<close>

theorem reconcile_replaces_selection_counterexample:
  "map_option ref (currentSession scenarioPlaceholder) = Some 2
   \<and> map_option ref (currentSession (onSessionCreated ''R7'' 9000 scenarioPlaceholder)) = Some 4
   \<and> map_option ref (currentSession (onSessionCreated ''R7'' 9000 scenarioPlaceholder))
        \<noteq> map_option ref (currentSession scenarioPlaceholder)
   \<and> sessionKey (handleSessionSelect True (sessions scenarioSelected ! 0) scenarioSelected)
        = Some ''R1''
   \<and> sessionKey (handleSessionSelect True (sessions scenarioSelected ! 1) scenarioSelected)
        = Some ''S2''
   \<and> sessionKey (handleSessionSelect True (sessions scenarioSelected ! 0) scenarioSelected)
        \<noteq> sessionKey (handleSessionSelect True (sessions scenarioSelected ! 1) scenarioSelected)"
  by (simp add: onSessionCreated_def scenarioPlaceholder_fields scenarioSelected_fields
      handleSessionSelect_def api_setSetting_def called_def sessionKey_def Let_def)

text \<open>
  C1, amended: when the selected session is a placeholder, the callback replaces it by a
  new object that copies it with the reported identifier and \<open>isNewlyCreated\<close> set, the
  flag \<open>isTemporary\<close> still set. The key of the conversation view is \<open>temp-\<close> followed
  by the project identifier while the selected session is temporary (and the session
  identifier otherwise), so it is the same before and after the callback, and the
  \<open>session\<close> prop stays undefined.
\<close>

theorem onSessionCreated_keeps_key:
  assumes "currentProject st = Some p" and "currentSession st = Some cs" and "isTemporary cs"
  shows "currentSession (onSessionCreated r t st) =
           Some (cs\<lparr>ref := Suc (nextRef st), id_s := r, isNewlyCreated := True\<rparr>)
         \<and> (refsAllocated st \<longrightarrow>
              map_option ref (currentSession (onSessionCreated r t st)) \<noteq> Some (ref cs))
         \<and> currentProject (onSessionCreated r t st) = Some p
         \<and> sessionKey st = Some (''temp-'' @ id_p p)
         \<and> sessionKey (onSessionCreated r t st) = sessionKey st
         \<and> sessionProp (onSessionCreated r t st) = sessionProp st
         \<and> (\<forall>p' cs'. currentProject st' = Some p' \<and> currentSession st' = Some cs'
               \<and> \<not> isTemporary cs' \<longrightarrow> sessionKey st' = Some (id_s cs'))"
  using assms
  by (simp add: onSessionCreated_def sessionKey_def sessionProp_def refsAllocated_def)

theorem onSessionCreated_keeps_key_witness:
  "sessionKey scenarioPlaceholder = Some ''temp-P1''
   \<and> sessionKey (onSessionCreated ''R7'' 9000 scenarioPlaceholder) = Some ''temp-P1''
   \<and> currentSession (onSessionCreated ''R7'' 9000 scenarioPlaceholder) =
       Some \<lparr>ref = 4, id_s = ''R7'', project_id = ''P1'', project_path = ''/a'',
             created_at = 5, isTemporary = True, isNewlyCreated = True, first_message = None\<rparr>"
proof -
  have tmp: "isTemporary \<lparr>ref = 2, id_s = ''new-session-5000'', project_id = ''P1'',
      project_path = ''/a'', created_at = 5, isTemporary = True, isNewlyCreated = False,
      first_message = None\<rparr>"
    by simp
  note w = onSessionCreated_keeps_key
      [OF scenarioPlaceholder_fields(1) scenarioPlaceholder_fields(2) tmp, of "''R7''" 9000]
  from w have cur: "currentSession (onSessionCreated ''R7'' 9000 scenarioPlaceholder) =
      Some (\<lparr>ref = 2, id_s = ''new-session-5000'', project_id = ''P1'',
        project_path = ''/a'', created_at = 5, isTemporary = True, isNewlyCreated = False,
        first_message = None\<rparr>\<lparr>ref := Suc (nextRef scenarioPlaceholder), id_s := ''R7'',
        isNewlyCreated := True\<rparr>)"
    by (rule conjunct1)
  from w have k: "sessionKey scenarioPlaceholder = Some (''temp-'' @ id_p scenarioProject)"
    and k': "sessionKey (onSessionCreated ''R7'' 9000 scenarioPlaceholder)
       = sessionKey scenarioPlaceholder"
    by blast+
  have 1: "sessionKey scenarioPlaceholder = Some ''temp-P1''"
    using k by (simp add: scenarioProject_def)
  have 2: "sessionKey (onSessionCreated ''R7'' 9000 scenarioPlaceholder) = Some ''temp-P1''"
    using k' 1 by simp
  have 3: "currentSession (onSessionCreated ''R7'' 9000 scenarioPlaceholder) =
       Some \<lparr>ref = 4, id_s = ''R7'', project_id = ''P1'', project_path = ''/a'',
             created_at = 5, isTemporary = True, isNewlyCreated = True, first_message = None\<rparr>"
    using cur by (simp add: scenarioPlaceholder_fields)
  from 1 2 3 show ?thesis by (intro conjI)
qed





subsection \<open>Persisting the selection\<close>

text \<open>
  C7, as stated, fails: the placeholder is the first entry the panel shows, and picking it
  there writes its identifier to the store.
\<close>

theorem placeholder_selection_persisted_counterexample:
  "hd (allSessions scenarioPlaceholder) =
     \<lparr>ref = 2, id_s = ''new-session-5000'', project_id = ''P1'', project_path = ''/a'',
      created_at = 5, isTemporary = True, isNewlyCreated = False, first_message = None\<rparr>
   \<and> isTemporary (hd (allSessions scenarioPlaceholder))
   \<and> settingsStore scenarioPlaceholder ''ui.currentSession.id'' = None
   \<and> settingsStore (handleSessionSelect True (hd (allSessions scenarioPlaceholder))
         scenarioPlaceholder) ''ui.currentSession.id'' = Some ''new-session-5000''
   \<and> last (apiCalls (handleSessionSelect True (hd (allSessions scenarioPlaceholder))
         scenarioPlaceholder)) = SetSetting ''ui.currentSession.id'' ''new-session-5000''"
  by (simp add: allSessions_def scenarioPlaceholder_fields scenarioSelected_fields
      handleSessionSelect_def api_setSetting_def called_def Let_def)

text \<open>
  C7, amended: picking a session from the list makes one call, which writes the session's
  identifier under \<open>ui.currentSession.id\<close> (the store changes when the call resolves),
  whether the entry is confirmed or the placeholder; the project's identifier is written
  under \<open>ui.currentProject.id\<close> when the project is selected. The new-session action
  makes no call and leaves the store as it was.
\<close>

theorem selection_persistence:
  "settingsStore (handleSessionSelect True s st) =
     (settingsStore st)(''ui.currentSession.id'' \<mapsto> id_s s)
   \<and> settingsStore (handleSessionSelect False s st) = settingsStore st
   \<and> apiCalls (handleSessionSelect ok s st) =
     apiCalls st @ [SetSetting ''ui.currentSession.id'' (id_s s)]
   \<and> currentSession (handleSessionSelect ok s st) = Some s
   \<and> settingsStore (handleProjectSelect answer True p st) =
     (settingsStore st)(''ui.currentProject.id'' \<mapsto> id_p p)
   \<and> settingsStore (handleCreateNewSession t1 t2 st) = settingsStore st
   \<and> apiCalls (handleCreateNewSession t1 t2 st) = apiCalls st"
  by (simp add: handleSessionSelect_def handleProjectSelect_def handleCreateNewSession_def
      api_setSetting_def called_def loadSessions_def Let_def split: option.splits)

section \<open>Properties of the registry\<close>

lemma getUserProjectByPath_None_iff:
  "getUserProjectByPath p repo = None \<longleftrightarrow> (\<forall>u\<in>set (rows repo). path_u u \<noteq> p)"
  by (auto simp: getUserProjectByPath_def find_None_iff)

lemma accessAndStat_Inr_iff: "(\<exists>x. accessAndStat fs p = Inr x) \<longleftrightarrow> fs p = Some Directory"
  by (auto simp: accessAndStat_def split: option.splits)

lemma add_user_project_duplicate:
  "\<exists>u\<in>set (rows repo). path_u u = p \<Longrightarrow>
     add_user_project enc fs now p nm repo =
       (Inl (Error ''Project already exists in the list''), repo)"
  using getUserProjectByPath_None_iff [of p repo]
  by (auto simp: add_user_project_def split: option.splits)

lemma add_user_project_inaccessible:
  "\<forall>u\<in>set (rows repo). path_u u \<noteq> p \<Longrightarrow> fs p \<noteq> Some Directory \<Longrightarrow>
     add_user_project enc fs now p nm repo =
       (Inl (Error ''Cannot access the directory''), repo)"
  using getUserProjectByPath_None_iff [of p repo] accessAndStat_Inr_iff [of fs p]
  by (auto simp: add_user_project_def Let_def split: option.splits sum.splits)

lemma add_user_project_success:
  "\<forall>u\<in>set (rows repo). path_u u \<noteq> p \<Longrightarrow> fs p = Some Directory \<Longrightarrow>
     add_user_project enc fs now p nm repo =
       (Inr (toProject enc
              \<lparr>id_u = next_id repo, name_u = projectNameOf nm p, path_u = p,
               description_u = Some (''User project: '' @ projectNameOf nm p),
               is_active = True, created_at_u = now, updated_at_u = now\<rparr>),
        repo\<lparr>rows := rows repo @
              [\<lparr>id_u = next_id repo, name_u = projectNameOf nm p, path_u = p,
                description_u = Some (''User project: '' @ projectNameOf nm p),
                is_active = True, created_at_u = now, updated_at_u = now\<rparr>],
             next_id := Suc (next_id repo)\<rparr>)"
  using getUserProjectByPath_None_iff [of p repo]
  by (simp add: add_user_project_def Let_def accessAndStat_def createUserProject_def
      save_new_def)

lemma find_by_key_distinct:
  "distinct (map f xs) \<Longrightarrow> x \<in> set xs \<Longrightarrow> find (\<lambda>r. f r = f x) xs = Some x"
  by (induction xs) (auto simp: image_iff)

lemma same_key_distinct:
  "distinct (map f xs) \<Longrightarrow> x \<in> set xs \<Longrightarrow> r \<in> set xs \<Longrightarrow> f r = f x \<Longrightarrow> r = x"
  by (auto simp: distinct_map inj_on_def)

lemma unchanged_by_removal: "(u = u\<lparr>is_active := False\<rparr>) = (\<not> is_active u)"
  by (cases u) auto

lemma deleteUserProject_found:
  assumes "u \<in> set (rows repo)" and "distinct (map id_u (rows repo))"
  shows "deleteUserProject (id_u u) now repo =
           (Inr (), repo\<lparr>rows := map (\<lambda>r. if id_u r = id_u u
                                          then (if is_active u
                                                then u\<lparr>is_active := False, updated_at_u := now\<rparr>
                                                else u)
                                          else r) (rows repo)\<rparr>)"
proof -
  have found: "find (\<lambda>r. id_u r = id_u u) (rows repo) = Some u"
    by (rule find_by_key_distinct [OF assms(2) assms(1)])
  have rows: "map (\<lambda>r. if id_u r = id_u (u\<lparr>is_active := False\<rparr>)
                      then (if r = u\<lparr>is_active := False\<rparr> then r
                            else u\<lparr>is_active := False\<rparr>\<lparr>updated_at_u := now\<rparr>)
                      else r) (rows repo)
      = map (\<lambda>r. if id_u r = id_u u
                  then (if is_active u then u\<lparr>is_active := False, updated_at_u := now\<rparr>
                        else u)
                  else r) (rows repo)"
  proof (rule map_cong [OF refl])
    fix r assume r: "r \<in> set (rows repo)"
    show "(if id_u r = id_u (u\<lparr>is_active := False\<rparr>)
           then (if r = u\<lparr>is_active := False\<rparr> then r
                 else u\<lparr>is_active := False\<rparr>\<lparr>updated_at_u := now\<rparr>)
           else r)
        = (if id_u r = id_u u
           then (if is_active u then u\<lparr>is_active := False, updated_at_u := now\<rparr> else u)
           else r)"
    proof (cases "id_u r = id_u u")
      case True
      then have "r = u"
        by (rule same_key_distinct [OF assms(2) assms(1) r])
      then show ?thesis
        using unchanged_by_removal [of u] by auto
    next
      case False
      then show ?thesis by simp
    qed
  qed
  show ?thesis
    unfolding deleteUserProject_def save_loaded_def found
    by (simp only: option.case rows)
qed

lemma set_getAllUserProjects:
  "set (getAllUserProjects repo) = {u \<in> set (rows repo). is_active u}"
  by (simp add: getAllUserProjects_def)

lemma wellFormedTable_add_user_project:
  "wellFormedTable repo \<Longrightarrow>
     wellFormedTable (snd (add_user_project enc fs now p nm repo))"
  by (auto simp: add_user_project_def createUserProject_def save_new_def wellFormedTable_def
      list_all_iff Let_def less_Suc_eq split: option.splits sum.splits)

lemma wellFormedTable_deleteUserProject:
  "wellFormedTable repo \<Longrightarrow> wellFormedTable (snd (deleteUserProject i now repo))"
proof -
  have keys: "id_u \<circ> (\<lambda>r. if id_u r = id_u u
                           then (if r = u\<lparr>is_active := False\<rparr> then r
                                 else u\<lparr>is_active := False, updated_at_u := now\<rparr>)
                           else r) = id_u" for u
    by (rule ext) simp
  show "wellFormedTable repo \<Longrightarrow> wellFormedTable (snd (deleteUserProject i now repo))"
    by (auto simp: deleteUserProject_def save_loaded_def wellFormedTable_def keys
        list_all_iff dest: find_Some_iff [THEN iffD1] split: option.splits)
qed

lemma scenario_paths:
  "\<exists>u\<in>set (rows scenarioRepository). path_u u = ''/a''"
  "\<forall>u\<in>set (rows scenarioRepository). path_u u \<noteq> ''/f''"
  "\<forall>u\<in>set (rows scenarioRepository). path_u u \<noteq> ''/missing''"
  "\<forall>u\<in>set (rows scenarioRepository). path_u u \<noteq> ''/b''"
  "scenarioFs ''/f'' \<noteq> Some Directory" "scenarioFs ''/missing'' \<noteq> Some Directory"
  "scenarioFs ''/b'' = Some Directory"
  by (simp_all add: scenarioRepository_def scenarioFs_def)

text \<open>
  C9: adding a project by path answers with the error ``Project already exists in the
  list'' when some row has that path, and with ``Cannot access the directory'' when no row
  has it and the path is absent or not a directory; whenever the handler answers with an
  error the table is unchanged. When it answers with a project, no row had the path, the
  path is a directory, and the table has gained exactly one row, for that path; and it
  does answer with a project when both checks pass.
\<close>

theorem add_user_project_checks:
  "((\<exists>u\<in>set (rows repo). path_u u = p) \<longrightarrow>
      add_user_project enc fs now p nm repo =
        (Inl (Error ''Project already exists in the list''), repo))
   \<and> ((\<forall>u\<in>set (rows repo). path_u u \<noteq> p) \<and> fs p \<noteq> Some Directory \<longrightarrow>
      add_user_project enc fs now p nm repo =
        (Inl (Error ''Cannot access the directory''), repo))
   \<and> (\<forall>e repo'. add_user_project enc fs now p nm repo = (Inl e, repo') \<longrightarrow> repo' = repo)
   \<and> (\<forall>proj repo'. add_user_project enc fs now p nm repo = (Inr proj, repo') \<longrightarrow>
        (\<forall>u\<in>set (rows repo). path_u u \<noteq> p) \<and> fs p = Some Directory
        \<and> rows repo' = rows repo @
              [\<lparr>id_u = next_id repo, name_u = projectNameOf nm p, path_u = p,
                description_u = Some (''User project: '' @ projectNameOf nm p),
                is_active = True, created_at_u = now, updated_at_u = now\<rparr>]
        \<and> path_p proj = p \<and> databaseId proj = Some (next_id repo))
   \<and> ((\<forall>u\<in>set (rows repo). path_u u \<noteq> p) \<and> fs p = Some Directory \<longrightarrow>
        (\<exists>proj repo'. add_user_project enc fs now p nm repo = (Inr proj, repo')))"
proof (cases "\<exists>u\<in>set (rows repo). path_u u = p")
  case True
  from add_user_project_duplicate [of repo p enc fs now nm] True show ?thesis
    by auto
next
  case False
  then have nodup: "\<forall>u\<in>set (rows repo). path_u u \<noteq> p" by blast
  show ?thesis
  proof (cases "fs p = Some Directory")
    case True
    from add_user_project_success [of repo p fs enc now nm] nodup True show ?thesis
      by (auto simp: toProject_def)
  next
    case False
    from add_user_project_inaccessible [of repo p fs enc now nm] nodup False
    show ?thesis by auto
  qed
qed

theorem add_user_project_checks_witness:
  "add_user_project (\<lambda>p. p) scenarioFs 2000 ''/a'' None scenarioRepository =
     (Inl (Error ''Project already exists in the list''), scenarioRepository)
   \<and> add_user_project (\<lambda>p. p) scenarioFs 2000 ''/f'' None scenarioRepository =
     (Inl (Error ''Cannot access the directory''), scenarioRepository)
   \<and> add_user_project (\<lambda>p. p) scenarioFs 2000 ''/missing'' None scenarioRepository =
     (Inl (Error ''Cannot access the directory''), scenarioRepository)
   \<and> (\<exists>proj repo'. add_user_project (\<lambda>p. p) scenarioFs 2000 ''/b'' None scenarioRepository
         = (Inr proj, repo'))"
proof -
  from add_user_project_checks [of scenarioRepository "''/a''" "\<lambda>p. p" scenarioFs 2000 None]
    scenario_paths(1)
  have a: "add_user_project (\<lambda>p. p) scenarioFs 2000 ''/a'' None scenarioRepository =
     (Inl (Error ''Project already exists in the list''), scenarioRepository)"
    by blast
  from add_user_project_checks [of scenarioRepository "''/f''" "\<lambda>p. p" scenarioFs 2000 None]
    scenario_paths(2,5)
  have f: "add_user_project (\<lambda>p. p) scenarioFs 2000 ''/f'' None scenarioRepository =
     (Inl (Error ''Cannot access the directory''), scenarioRepository)"
    by blast
  from add_user_project_checks [of scenarioRepository "''/missing''" "\<lambda>p. p" scenarioFs 2000 None]
    scenario_paths(3,6)
  have m: "add_user_project (\<lambda>p. p) scenarioFs 2000 ''/missing'' None scenarioRepository =
     (Inl (Error ''Cannot access the directory''), scenarioRepository)"
    by blast
  from add_user_project_checks [of scenarioRepository "''/b''" "\<lambda>p. p" scenarioFs 2000 None]
    scenario_paths(4,7)
  have b: "\<exists>proj repo'. add_user_project (\<lambda>p. p) scenarioFs 2000 ''/b'' None
      scenarioRepository = (Inr proj, repo')"
    by blast
  from a f m b show ?thesis by (intro conjI)
qed

text \<open>
  C10: in a table whose primary keys are distinct, removing a row marks it inactive: the
  call succeeds, no listed project carries the row's key any more, and adding a project
  with the row's path is still rejected as a duplicate, the table unchanged; yet the check
  that looks at active rows only would find no such path when no other row has it.
\<close>

theorem soft_removed_path_still_duplicate:
  assumes "u \<in> set (rows repo)" and "distinct (map id_u (rows repo))"
  shows "fst (deleteUserProject (id_u u) now repo) = Inr ()
    \<and> (\<forall>v\<in>set (getAllUserProjects (snd (deleteUserProject (id_u u) now repo))). id_u v \<noteq> id_u u)
    \<and> (\<forall>x\<in>set (get_user_projects enc (snd (deleteUserProject (id_u u) now repo))).
          databaseId x \<noteq> Some (id_u u))
    \<and> add_user_project enc fs now' (path_u u) nm (snd (deleteUserProject (id_u u) now repo)) =
        (Inl (Error ''Project already exists in the list''),
         snd (deleteUserProject (id_u u) now repo))
    \<and> ((\<forall>v\<in>set (rows repo). path_u v = path_u u \<longrightarrow> v = u) \<longrightarrow>
         \<not> projectPathExists (path_u u) (snd (deleteUserProject (id_u u) now repo)))"
proof -
  define u' where "u' = (if is_active u then u\<lparr>is_active := False, updated_at_u := now\<rparr> else u)"
  define repo' where
    "repo' = repo\<lparr>rows := map (\<lambda>r. if id_u r = id_u u then u' else r) (rows repo)\<rparr>"
  have del: "deleteUserProject (id_u u) now repo = (Inr (), repo')"
    unfolding repo'_def u'_def by (rule deleteUserProject_found [OF assms])
  have removed: "\<not> is_active u'" "path_u u' = path_u u" "id_u u' = id_u u"
    by (simp_all add: u'_def)
  have rows': "set (rows repo') = (\<lambda>r. if id_u r = id_u u then u' else r) ` set (rows repo)"
    by (simp add: repo'_def)
  have inactive: "\<forall>v\<in>set (getAllUserProjects repo'). id_u v \<noteq> id_u u"
  proof
    fix v assume "v \<in> set (getAllUserProjects repo')"
    then have v: "v \<in> set (rows repo')" "is_active v"
      by (simp_all add: set_getAllUserProjects)
    from v(1) obtain r where r: "r \<in> set (rows repo)"
      "v = (if id_u r = id_u u then u' else r)"
      unfolding rows' by blast
    show "id_u v \<noteq> id_u u"
    proof (cases "id_u r = id_u u")
      case True
      with r(2) v(2) removed(1) show ?thesis by simp
    next
      case False
      with r(2) show ?thesis by simp
    qed
  qed
  have listed: "\<forall>x\<in>set (get_user_projects enc repo'). databaseId x \<noteq> Some (id_u u)"
    using inactive by (auto simp: get_user_projects_def toProject_def)
  have "u' \<in> set (rows repo')"
    unfolding rows' using assms(1) by (rule rev_image_eqI) simp
  with removed(2) have "\<exists>v\<in>set (rows repo'). path_u v = path_u u"
    by blast
  then have dup: "add_user_project enc fs now' (path_u u) nm repo' =
        (Inl (Error ''Project already exists in the list''), repo')"
    by (rule add_user_project_duplicate)
  have active: "(\<forall>v\<in>set (rows repo). path_u v = path_u u \<longrightarrow> v = u) \<longrightarrow>
         \<not> projectPathExists (path_u u) repo'"
  proof
    assume only: "\<forall>v\<in>set (rows repo). path_u v = path_u u \<longrightarrow> v = u"
    have "\<not> (path_u v = path_u u \<and> is_active v)" if "v \<in> set (rows repo')" for v
    proof -
      from that obtain r where r: "r \<in> set (rows repo)"
        "v = (if id_u r = id_u u then u' else r)"
        unfolding rows' by blast
      show ?thesis
      proof (cases "id_u r = id_u u")
        case True
        with r(2) removed(1) show ?thesis by simp
      next
        case False
        then have "r \<noteq> u" by auto
        with only r(1) have "path_u r \<noteq> path_u u" by blast
        with False r(2) show ?thesis by simp
      qed
    qed
    then show "\<not> projectPathExists (path_u u) repo'"
      by (auto simp: projectPathExists_def filter_empty_conv)
  qed
  from inactive listed dup active show ?thesis
    unfolding del fst_conv snd_conv by (intro conjI refl)
qed

theorem soft_removed_path_still_duplicate_witness:
  "fst (deleteUserProject 1 3000 scenarioRepository) = Inr ()
   \<and> get_user_projects (\<lambda>p. p) (snd (deleteUserProject 1 3000 scenarioRepository)) = []
   \<and> get_user_projects (\<lambda>p. p) scenarioRepository \<noteq> []
   \<and> add_user_project (\<lambda>p. p) scenarioFs 4000 ''/a'' None
        (snd (deleteUserProject 1 3000 scenarioRepository)) =
      (Inl (Error ''Project already exists in the list''),
       snd (deleteUserProject 1 3000 scenarioRepository))
   \<and> \<not> projectPathExists ''/a'' (snd (deleteUserProject 1 3000 scenarioRepository))"
proof -
  let ?u = "\<lparr>id_u = 1, name_u = ''a'', path_u = ''/a'', description_u = None,
             is_active = True, created_at_u = 1000, updated_at_u = 1000\<rparr>"
  have mem: "?u \<in> set (rows scenarioRepository)"
    and dist: "distinct (map id_u (rows scenarioRepository))"
    and only: "\<forall>v\<in>set (rows scenarioRepository). path_u v = path_u ?u \<longrightarrow> v = ?u"
    by (simp_all add: scenarioRepository_def)
  note w = soft_removed_path_still_duplicate
      [OF mem dist, of 3000 "\<lambda>p. p" scenarioFs 4000 None, simplified UserProject.simps]
  from w have d: "fst (deleteUserProject 1 3000 scenarioRepository) = Inr ()"
    by (rule conjunct1)
  from w have dup: "add_user_project (\<lambda>p. p) scenarioFs 4000 ''/a'' None
        (snd (deleteUserProject 1 3000 scenarioRepository)) =
      (Inl (Error ''Project already exists in the list''),
       snd (deleteUserProject 1 3000 scenarioRepository))"
    by blast
  from w only have act:
    "\<not> projectPathExists ''/a'' (snd (deleteUserProject 1 3000 scenarioRepository))"
    by simp
  have gone: "get_user_projects (\<lambda>p. p) (snd (deleteUserProject 1 3000 scenarioRepository)) = []"
    by (simp add: get_user_projects_def getAllUserProjects_def deleteUserProject_def
        save_loaded_def scenarioRepository_def)
  have there: "get_user_projects (\<lambda>p. p) scenarioRepository \<noteq> []"
    by (simp add: get_user_projects_def getAllUserProjects_def scenarioRepository_def)
  from d gone there dup act show ?thesis by (intro conjI)
qed

end
